theory Spec2Isabelle
  imports Main "HOL-Library.Word"
begin

unbundle bit_operations_syntax

section \<open>The BLED112 client: framing, header validation and dispatch\<close>

text \<open>
  A shallow embedding of \<^verbatim>\<open>src/bled112client.h\<close>. The class \<^verbatim>\<open>Bled112Client\<close> owns a
  serial socket and offers three families of operations: \<^verbatim>\<open>write\<close> (a typed message,
  with or without trailing bytes), \<^verbatim>\<open>read<T>\<close> (exactly one message of an expected
  type) and the variadic \<^verbatim>\<open>read(functions...)\<close> (one message, dispatched to the first
  function whose first argument type fits the header).

  The headers \<^verbatim>\<open>bleapi.h\<close>, \<^verbatim>\<open>serial.h\<close>, \<^verbatim>\<open>buffer.h\<close> and \<^verbatim>\<open>firstargument.h\<close> are
  not among the sources. What the client uses of them is either a parameter of the
  model (the codecs \<^verbatim>\<open>pack\<close> and \<^verbatim>\<open>unpack\<close>) or a definition marked
  ``Modelled from the spec''.
\<close>

subsection \<open>Machine integers and buffers\<close>

type_synonym byte = "8 word"

text \<open>\<^verbatim>\<open>std::size_t\<close> on the 64-bit targets of the library: arithmetic wraps modulo \<open>2^64\<close>.\<close>

type_synonym size_t = "64 word"

text \<open>\<^verbatim>\<open>Buffer\<close>: an owned, ordered sequence of raw bytes.\<close>

type_synonym Buffer = "byte list"

subsection \<open>Errors\<close>

text \<open>
  \<^verbatim>\<open>checkHeader\<close> throws \<^verbatim>\<open>std::runtime_error\<close> with one of three messages; the
  constructors name them as the specification does:
  \<^item> \<open>ClassMismatch\<close>: ``Class index does not match the expected value.''
  \<^item> \<open>CommandMismatch\<close>: ``Command index does not match the expected value.''
  \<^item> \<open>LengthMismatch\<close>: ``Payload size does not match the expected value.''
  \<open>TransportError\<close> is the failure of the serial link.
\<close>

datatype error = ClassMismatch | CommandMismatch | LengthMismatch | TransportError

subsection \<open>Header and message types\<close>

text \<open>
  Modelled from the spec: the struct \<^verbatim>\<open>Header\<close> of \<^verbatim>\<open>bleapi.h\<close>, which is not among the
  sources. The specification gives it the fields \<^verbatim>\<open>classId: u8\<close> and \<^verbatim>\<open>commandId: u8\<close>
  (\<^verbatim>\<open>header.cls\<close> and \<^verbatim>\<open>header.cmd\<close> in the client) and a derived \<^verbatim>\<open>length(): u16\<close>,
  the payload byte count. The bit layout on the wire is left to the codec, a parameter.
\<close>

record Header =
  cls :: byte
  cmd :: byte
  len :: "16 word"

text \<open>\<^verbatim>\<open>header.length()\<close>, as the client uses it: in comparisons and differences with
  \<^verbatim>\<open>sizeof(T)\<close>, hence converted to \<^verbatim>\<open>std::size_t\<close>.\<close>

definition hlength :: "Header \<Rightarrow> size_t" where
  "hlength h = ucast (len h)"

text \<open>Modelled from the spec: \<^verbatim>\<open>sizeof(Header)\<close>, ``exactly 4 raw bytes''.\<close>

definition sizeof_Header :: size_t where
  "sizeof_Header = 4"

text \<open>
  What the client reads of a message type \<^verbatim>\<open>T\<close>: the static members \<^verbatim>\<open>T::cls\<close> and
  \<^verbatim>\<open>T::cmd\<close>, \<^verbatim>\<open>sizeof(T)\<close> and the trait \<^verbatim>\<open>Partial<T>::value\<close>.
\<close>

record MsgType =
  tcls :: byte
  tcmd :: byte
  tsize :: size_t
  partial :: bool

text \<open>
  The codecs of \<^verbatim>\<open>bleapi.h\<close>, parameters of the model: \<^verbatim>\<open>pack\<close> and \<^verbatim>\<open>unpack\<close> at the
  type \<^verbatim>\<open>Header\<close> and at the message types. \<open>'v\<close> is the type of message values.
\<close>

record 'v BleApi =
  pack_Header :: "Header \<Rightarrow> Buffer"
  unpack_Header :: "Buffer \<Rightarrow> Header"
  pack :: "'v \<Rightarrow> Buffer"
  unpack :: "MsgType \<Rightarrow> Buffer \<Rightarrow> 'v"

text \<open>
  Modelled from the spec: \<^verbatim>\<open>getHeader<T>(size = 0)\<close> of \<^verbatim>\<open>bleapi.h\<close>, which is not among
  the sources: the header of \<^verbatim>\<open>T\<close> with ``length = T.fixedSize + trailing.size()'',
  stored in the 16-bit length of the header.
\<close>

definition getHeader :: "MsgType \<Rightarrow> size_t \<Rightarrow> Header" where
  "getHeader T n = \<lparr>cls = tcls T, cmd = tcmd T, len = ucast (tsize T + n)\<rparr>"

subsection \<open>The serial link\<close>

text \<open>
  Modelled from the spec: the class \<^verbatim>\<open>Serial\<close> of \<^verbatim>\<open>serial.h\<close>, which is not among the
  sources. ``\<^verbatim>\<open>read(n)\<close> blocks until exactly n bytes are available, fails with a
  transport error on I/O failure or stream closure; \<^verbatim>\<open>write(bytes)\<close> blocks until all
  bytes are sent or fails with a transport error. Reads and writes are all-or-nothing.''

  The state of the link: the bytes that will still arrive before the stream closes
  (\<open>pending\<close>), the bytes written so far (\<open>written\<close>) and the number of bytes the link
  still accepts before it fails (\<open>room\<close>).
\<close>

record Serial =
  pending :: Buffer
  written :: Buffer
  room :: nat

definition socket_read :: "size_t \<Rightarrow> Serial \<Rightarrow> (error + Buffer) \<times> Serial" where
  "socket_read n s =
     (if unat n \<le> length (pending s)
      then (Inr (take (unat n) (pending s)), s\<lparr>pending := drop (unat n) (pending s)\<rparr>)
      else (Inl TransportError, s))"

definition socket_write :: "Buffer \<Rightarrow> Serial \<Rightarrow> (error + unit) \<times> Serial" where
  "socket_write bs s =
     (if length bs \<le> room s
      then (Inr (), s\<lparr>written := written s @ bs, room := room s - length bs\<rparr>)
      else (Inl TransportError, s))"

subsection \<open>Writing\<close>

text \<open>
  \<^verbatim>\<open>write(const T &payload)\<close>: the header of \<^verbatim>\<open>T\<close>, then the payload. An exception of
  the first \<^verbatim>\<open>socket.write\<close> skips the second.
\<close>

definition write_payload :: "'v BleApi \<Rightarrow> MsgType \<Rightarrow> 'v \<Rightarrow> Serial \<Rightarrow> (error + unit) \<times> Serial" where
  "write_payload api T payload s =
     (case socket_write (pack_Header api (getHeader T 0)) s of
        (Inl e, s1) \<Rightarrow> (Inl e, s1)
      | (Inr _, s1) \<Rightarrow> socket_write (pack api payload) s1)"

text \<open>\<^verbatim>\<open>write(const T &payload, const Buffer &leftover)\<close>: header, payload, leftover.\<close>

definition write_leftover ::
  "'v BleApi \<Rightarrow> MsgType \<Rightarrow> 'v \<Rightarrow> Buffer \<Rightarrow> Serial \<Rightarrow> (error + unit) \<times> Serial" where
  "write_leftover api T payload leftover s =
     (case socket_write (pack_Header api (getHeader T (of_nat (length leftover)))) s of
        (Inl e, s1) \<Rightarrow> (Inl e, s1)
      | (Inr _, s1) \<Rightarrow>
          (case socket_write (pack api payload) s1 of
             (Inl e, s2) \<Rightarrow> (Inl e, s2)
           | (Inr _, s2) \<Rightarrow> socket_write leftover s2))"

subsection \<open>Reading one expected message\<close>

definition readHeader :: "'v BleApi \<Rightarrow> Serial \<Rightarrow> (error + Header) \<times> Serial" where
  "readHeader api s =
     (case socket_read sizeof_Header s of
        (Inl e, s1) \<Rightarrow> (Inl e, s1)
      | (Inr bs, s1) \<Rightarrow> (Inr (unpack_Header api bs), s1))"

text \<open>\<^verbatim>\<open>checkHeader<T>\<close>: three checks in the order of the source; the first that fails
  throws.\<close>

definition checkHeader :: "MsgType \<Rightarrow> Header \<Rightarrow> error + unit" where
  "checkHeader T header =
     (if cls header \<noteq> tcls T then Inl ClassMismatch
      else if cmd header \<noteq> tcmd T then Inl CommandMismatch
      else if \<not> partial T \<and> hlength header \<noteq> tsize T then Inl LengthMismatch
      else Inr ())"

text \<open>\<^verbatim>\<open>readPayload<T>(header)\<close>: reads \<^verbatim>\<open>header.length()\<close> bytes and unpacks them.\<close>

definition readPayload :: "'v BleApi \<Rightarrow> MsgType \<Rightarrow> Header \<Rightarrow> Serial \<Rightarrow> (error + 'v) \<times> Serial" where
  "readPayload api T header s =
     (case socket_read (hlength header) s of
        (Inl e, s1) \<Rightarrow> (Inl e, s1)
      | (Inr bs, s1) \<Rightarrow> (Inr (unpack api T bs), s1))"

text \<open>
  \<^verbatim>\<open>readPayload<T>(header, leftover)\<close>: reads \<^verbatim>\<open>sizeof(T)\<close> bytes and unpacks them, then
  reads \<^verbatim>\<open>header.length() - sizeof(T)\<close> bytes into \<^verbatim>\<open>leftover\<close>. The difference is
  computed in \<^verbatim>\<open>std::size_t\<close> and wraps when the header's length is the smaller one.
\<close>

definition readPayload_leftover ::
  "'v BleApi \<Rightarrow> MsgType \<Rightarrow> Header \<Rightarrow> Serial \<Rightarrow> (error + 'v \<times> Buffer) \<times> Serial" where
  "readPayload_leftover api T header s =
     (case socket_read (tsize T) s of
        (Inl e, s1) \<Rightarrow> (Inl e, s1)
      | (Inr bs, s1) \<Rightarrow>
          (case socket_read (hlength header - tsize T) s1 of
             (Inl e, s2) \<Rightarrow> (Inl e, s2)
           | (Inr leftover, s2) \<Rightarrow> (Inr (unpack api T bs, leftover), s2)))"

text \<open>\<^verbatim>\<open>T read()\<close>.\<close>

definition read :: "'v BleApi \<Rightarrow> MsgType \<Rightarrow> Serial \<Rightarrow> (error + 'v) \<times> Serial" where
  "read api T s =
     (case readHeader api s of
        (Inl e, s1) \<Rightarrow> (Inl e, s1)
      | (Inr header, s1) \<Rightarrow>
          (case checkHeader T header of
             Inl e \<Rightarrow> (Inl e, s1)
           | Inr _ \<Rightarrow> readPayload api T header s1))"

text \<open>\<^verbatim>\<open>T read(Buffer &leftover)\<close>.\<close>

definition read_leftover :: "'v BleApi \<Rightarrow> MsgType \<Rightarrow> Serial \<Rightarrow> (error + 'v \<times> Buffer) \<times> Serial" where
  "read_leftover api T s =
     (case readHeader api s of
        (Inl e, s1) \<Rightarrow> (Inl e, s1)
      | (Inr header, s1) \<Rightarrow>
          (case checkHeader T header of
             Inl e \<Rightarrow> (Inl e, s1)
           | Inr _ \<Rightarrow> readPayload_leftover api T header s1))"

subsection \<open>Dispatch\<close>

text \<open>
  The functions handed to the variadic \<^verbatim>\<open>read\<close>. The accepted signatures are
  \<^verbatim>\<open>void(Type)\<close> and \<^verbatim>\<open>void(Type, Buffer)\<close>; the overload of \<^verbatim>\<open>dispatch\<close> is chosen at
  compile time by \<^verbatim>\<open>Partial<Type>\<close>, the first for a type that is not partial, the
  second for a partial one. Each function carries its first argument type: in
  \<open>Fn T f\<close> the type \<open>T\<close> is not partial, in \<open>FnPartial T f\<close> it is, and
  \<open>dispatch\<close> never reads the flag \<open>partial T\<close> itself. What a function does is a
  change of the caller's state \<open>'u\<close>; a function that throws is not modelled.
\<close>

datatype ('v, 'u) Function =
    Fn MsgType "'v \<Rightarrow> 'u \<Rightarrow> 'u"
  | FnPartial MsgType "'v \<Rightarrow> Buffer \<Rightarrow> 'u \<Rightarrow> 'u"

text \<open>
  \<^verbatim>\<open>dispatch(header, function, functions...)\<close>: the base case returns; the overload for
  a type that is not partial tests class, command and length; the overload for a
  partial type tests class and command.
\<close>

fun dispatch ::
  "'v BleApi \<Rightarrow> Header \<Rightarrow> ('v, 'u) Function list \<Rightarrow> Serial \<times> 'u \<Rightarrow> (error + unit) \<times> Serial \<times> 'u" where
  "dispatch api header [] (s, u) = (Inr (), s, u)"
| "dispatch api header (Fn T function # functions) (s, u) =
     (if cls header = tcls T \<and> cmd header = tcmd T \<and> hlength header = tsize T
      then (case readPayload api T header s of
              (Inl e, s1) \<Rightarrow> (Inl e, s1, u)
            | (Inr payload, s1) \<Rightarrow> (Inr (), s1, function payload u))
      else dispatch api header functions (s, u))"
| "dispatch api header (FnPartial T function # functions) (s, u) =
     (if cls header = tcls T \<and> cmd header = tcmd T
      then (case readPayload_leftover api T header s of
              (Inl e, s1) \<Rightarrow> (Inl e, s1, u)
            | (Inr (payload, leftover), s1) \<Rightarrow> (Inr (), s1, function payload leftover u))
      else dispatch api header functions (s, u))"

text \<open>\<^verbatim>\<open>read(const Functions&... functions)\<close>: one header, then dispatch.\<close>

definition read_dispatch ::
  "'v BleApi \<Rightarrow> ('v, 'u) Function list \<Rightarrow> Serial \<times> 'u \<Rightarrow> (error + unit) \<times> Serial \<times> 'u" where
  "read_dispatch api functions w =
     (case readHeader api (fst w) of
        (Inl e, s1) \<Rightarrow> (Inl e, s1, snd w)
      | (Inr header, s1) \<Rightarrow> dispatch api header functions (s1, snd w))"

text \<open>The test of the \<^verbatim>\<open>if\<close> in the overload of \<^verbatim>\<open>dispatch\<close> that a function selects.\<close>

fun handlerTest :: "Header \<Rightarrow> ('v, 'u) Function \<Rightarrow> bool" where
  "handlerTest header (Fn T function) =
     (cls header = tcls T \<and> cmd header = tcmd T \<and> hlength header = tsize T)"
| "handlerTest header (FnPartial T function) =
     (cls header = tcls T \<and> cmd header = tcmd T)"

subsection \<open>A codec instance for the worked examples\<close>

text \<open>
  The theorems below hold for every codec. The worked examples need one to run on: here
  a message value is its bytes, and a header is four bytes, the low three bits of the
  first and the second holding the length, the third the class and the fourth the
  command.
\<close>

fun example_unpack_Header :: "Buffer \<Rightarrow> Header" where
  "example_unpack_Header [b0, b1, b2, b3] =
     \<lparr>cls = b2, cmd = b3, len = push_bit 8 (ucast (b0 AND 7)) OR ucast b1\<rparr>"
| "example_unpack_Header bs = \<lparr>cls = 0, cmd = 0, len = 0\<rparr>"

definition example_pack_Header :: "Header \<Rightarrow> Buffer" where
  "example_pack_Header h = [ucast (drop_bit 8 (len h)) AND 7, ucast (len h), cls h, cmd h]"

definition example_api :: "Buffer BleApi" where
  "example_api =
     \<lparr>pack_Header = example_pack_Header, unpack_Header = example_unpack_Header,
      pack = (\<lambda>v. v), unpack = (\<lambda>T bs. bs)\<rparr>"

section \<open>Properties\<close>

subsection \<open>The serial link and the header\<close>

lemma socket_read_error: "socket_read n s = (Inl e, s') \<Longrightarrow> e = TransportError \<and> s' = s"
  by (auto simp: socket_read_def split: if_splits)

lemma readPayload_error: "readPayload api T h s = (Inl e, s') \<Longrightarrow> e = TransportError"
  by (auto simp: readPayload_def socket_read_def split: if_splits)

lemma readPayload_leftover_error:
  "readPayload_leftover api T h s = (Inl e, s') \<Longrightarrow> e = TransportError"
  by (auto simp: readPayload_leftover_def socket_read_def split: if_splits)

lemma readHeader_Inr:
  "readHeader api s = (Inr h, s1) \<longleftrightarrow>
     4 \<le> length (pending s) \<and> h = unpack_Header api (take 4 (pending s)) \<and>
     s1 = s\<lparr>pending := drop 4 (pending s)\<rparr>"
  by (auto simp: readHeader_def socket_read_def sizeof_Header_def)

lemma readHeader_Inl:
  "readHeader api s = (Inl e, s1) \<longleftrightarrow> length (pending s) < 4 \<and> e = TransportError \<and> s1 = s"
  by (auto simp: readHeader_def socket_read_def sizeof_Header_def)

subsection \<open>Walking the list of functions\<close>

lemma dispatch_skip_head:
  "\<not> handlerTest header f \<Longrightarrow>
     dispatch api header (f # functions) w = dispatch api header functions w"
  by (cases f; cases w) auto

lemma dispatch_take_head:
  "handlerTest header f \<Longrightarrow>
     dispatch api header (f # functions) w = dispatch api header (f # others) w"
  by (cases f; cases w) auto

lemma dispatch_unmatched:
  "\<forall>f \<in> set fs. \<not> handlerTest h f \<Longrightarrow> dispatch api h fs (s, u) = (Inr (), s, u)"
  by (induction fs) (simp_all add: dispatch_skip_head)

lemma dispatch_skip:
  "\<forall>g \<in> set pre. \<not> handlerTest h g \<Longrightarrow> dispatch api h (pre @ fs) w = dispatch api h fs w"
  by (induction pre) (simp_all add: dispatch_skip_head)

lemma readPayload_eq:
  "readPayload api T h s =
     (if unat (hlength h) \<le> length (pending s)
      then (Inr (unpack api T (take (unat (hlength h)) (pending s))),
            s\<lparr>pending := drop (unat (hlength h)) (pending s)\<rparr>)
      else (Inl TransportError, s))"
  by (simp add: readPayload_def socket_read_def)

lemma readPayload_leftover_eq:
  "readPayload_leftover api T h s =
     (if unat (tsize T) \<le> length (pending s)
      then (if unat (hlength h - tsize T) \<le> length (pending s) - unat (tsize T)
            then (Inr (unpack api T (take (unat (tsize T)) (pending s)),
                       take (unat (hlength h - tsize T)) (drop (unat (tsize T)) (pending s))),
                  s\<lparr>pending :=
                      drop (unat (hlength h - tsize T)) (drop (unat (tsize T)) (pending s))\<rparr>)
            else (Inl TransportError, s\<lparr>pending := drop (unat (tsize T)) (pending s)\<rparr>))
      else (Inl TransportError, s))"
  by (simp add: readPayload_leftover_def socket_read_def)

lemma readPayload_leftover_fits:
  assumes "tsize T \<le> hlength h" and "unat (hlength h) \<le> length (pending s)"
  shows "readPayload_leftover api T h s =
           (Inr (unpack api T (take (unat (tsize T)) (pending s)),
                 take (unat (hlength h) - unat (tsize T)) (drop (unat (tsize T)) (pending s))),
            s\<lparr>pending := drop (unat (hlength h)) (pending s)\<rparr>)"
proof -
  from assms(1) have d: "unat (hlength h - tsize T) = unat (hlength h) - unat (tsize T)"
    by (rule unat_sub)
  from assms(1) have le: "unat (tsize T) \<le> unat (hlength h)"
    by (simp add: word_le_nat_alt)
  with assms(2) have "unat (tsize T) \<le> length (pending s)"
    and "unat (hlength h) - unat (tsize T) \<le> length (pending s) - unat (tsize T)"
    by simp_all
  with d le show ?thesis
    by (simp add: readPayload_leftover_eq)
qed

subsection \<open>The validator\<close>

text \<open>
  Claim C10. When several fields of the header mismatch at once, \<open>checkHeader\<close> reports
  the class mismatch in preference to the command mismatch, and the command mismatch in
  preference to the length mismatch: the checks run in the order class, command, length
  and the first that fails gives the error.
\<close>

theorem checkHeader_order:
  "(cls h \<noteq> tcls T \<longrightarrow> checkHeader T h = Inl ClassMismatch) \<and>
   (cls h = tcls T \<and> cmd h \<noteq> tcmd T \<longrightarrow> checkHeader T h = Inl CommandMismatch) \<and>
   (cls h = tcls T \<and> cmd h = tcmd T \<and> \<not> partial T \<and> hlength h \<noteq> tsize T \<longrightarrow>
      checkHeader T h = Inl LengthMismatch)"
  by (simp add: checkHeader_def)

text \<open>All three fields wrong: class; class right, the other two wrong: command; only
  the length wrong: length.\<close>

theorem checkHeader_order_witness:
  "checkHeader \<lparr>tcls = 5, tcmd = 9, tsize = 8, partial = False\<rparr> \<lparr>cls = 6, cmd = 10, len = 7\<rparr>
     = Inl ClassMismatch \<and>
   checkHeader \<lparr>tcls = 5, tcmd = 9, tsize = 8, partial = False\<rparr> \<lparr>cls = 5, cmd = 10, len = 7\<rparr>
     = Inl CommandMismatch \<and>
   checkHeader \<lparr>tcls = 5, tcmd = 9, tsize = 8, partial = False\<rparr> \<lparr>cls = 5, cmd = 9, len = 7\<rparr>
     = Inl LengthMismatch"
  using
    checkHeader_order [of "\<lparr>cls = 6, cmd = 10, len = 7\<rparr>"
      "\<lparr>tcls = 5, tcmd = 9, tsize = 8, partial = False\<rparr>"]
    checkHeader_order [of "\<lparr>cls = 5, cmd = 10, len = 7\<rparr>"
      "\<lparr>tcls = 5, tcmd = 9, tsize = 8, partial = False\<rparr>"]
    checkHeader_order [of "\<lparr>cls = 5, cmd = 9, len = 7\<rparr>"
      "\<lparr>tcls = 5, tcmd = 9, tsize = 8, partial = False\<rparr>"]
  by (simp add: hlength_def)

subsection \<open>Reading one expected message\<close>

text \<open>
  Claim C4, as amended. For every expected message type \<open>T\<close> and every observed
  header, the typed read fails with exactly the error of the validator: \<open>ClassMismatch\<close>
  when the class differs, otherwise \<open>CommandMismatch\<close> when the command differs,
  otherwise \<open>LengthMismatch\<close> when \<open>T\<close> is not partial and the length is not
  \<open>sizeof(T)\<close>; for a partial type no length check is made. Otherwise it reads the
  payload: \<^verbatim>\<open>read<T>()\<close> returns the value unpacked from the \<open>header.length()\<close> bytes
  the link delivers; \<^verbatim>\<open>read<T>(Buffer&)\<close> returns the value unpacked from the first
  \<open>sizeof(T)\<close> bytes and the \<open>header.length() - sizeof(T)\<close> bytes after them, when the
  header's length is at least \<open>sizeof(T)\<close> and the link delivers the bytes the header
  announces. A payload read that the link does not serve fails with the transport's
  error. The first two conjuncts give both reads in closed form, the size of the second
  read of \<^verbatim>\<open>read<T>(Buffer&)\<close> being the \<^verbatim>\<open>std::size_t\<close> difference that the source
  computes.
\<close>

theorem read_expected_result:
  assumes "readHeader api s = (Inr h, s1)"
  shows "read api T s =
           (if cls h \<noteq> tcls T then (Inl ClassMismatch, s1)
            else if cmd h \<noteq> tcmd T then (Inl CommandMismatch, s1)
            else if \<not> partial T \<and> hlength h \<noteq> tsize T then (Inl LengthMismatch, s1)
            else if unat (hlength h) \<le> length (pending s1)
              then (Inr (unpack api T (take (unat (hlength h)) (pending s1))),
                    s1\<lparr>pending := drop (unat (hlength h)) (pending s1)\<rparr>)
            else (Inl TransportError, s1)) \<and>
         read_leftover api T s =
           (if cls h \<noteq> tcls T then (Inl ClassMismatch, s1)
            else if cmd h \<noteq> tcmd T then (Inl CommandMismatch, s1)
            else if \<not> partial T \<and> hlength h \<noteq> tsize T then (Inl LengthMismatch, s1)
            else if unat (tsize T) \<le> length (pending s1)
              then (if unat (hlength h - tsize T) \<le> length (pending s1) - unat (tsize T)
                    then (Inr (unpack api T (take (unat (tsize T)) (pending s1)),
                               take (unat (hlength h - tsize T))
                                 (drop (unat (tsize T)) (pending s1))),
                          s1\<lparr>pending :=
                               drop (unat (hlength h - tsize T))
                                 (drop (unat (tsize T)) (pending s1))\<rparr>)
                    else (Inl TransportError,
                          s1\<lparr>pending := drop (unat (tsize T)) (pending s1)\<rparr>))
            else (Inl TransportError, s1)) \<and>
         (cls h = tcls T \<and> cmd h = tcmd T \<and> (partial T \<or> hlength h = tsize T) \<and>
          tsize T \<le> hlength h \<and> unat (hlength h) \<le> length (pending s1) \<longrightarrow>
            read_leftover api T s =
              (Inr (unpack api T (take (unat (tsize T)) (pending s1)),
                    take (unat (hlength h) - unat (tsize T))
                      (drop (unat (tsize T)) (pending s1))),
               s1\<lparr>pending := drop (unat (hlength h)) (pending s1)\<rparr>))"
proof -
  have 1: "read api T s =
           (if cls h \<noteq> tcls T then (Inl ClassMismatch, s1)
            else if cmd h \<noteq> tcmd T then (Inl CommandMismatch, s1)
            else if \<not> partial T \<and> hlength h \<noteq> tsize T then (Inl LengthMismatch, s1)
            else if unat (hlength h) \<le> length (pending s1)
              then (Inr (unpack api T (take (unat (hlength h)) (pending s1))),
                    s1\<lparr>pending := drop (unat (hlength h)) (pending s1)\<rparr>)
            else (Inl TransportError, s1))"
    using assms by (simp add: read_def checkHeader_def readPayload_eq)
  have 2: "read_leftover api T s =
           (if cls h \<noteq> tcls T then (Inl ClassMismatch, s1)
            else if cmd h \<noteq> tcmd T then (Inl CommandMismatch, s1)
            else if \<not> partial T \<and> hlength h \<noteq> tsize T then (Inl LengthMismatch, s1)
            else readPayload_leftover api T h s1)"
    using assms by (simp add: read_leftover_def checkHeader_def)
  have 3: "read_leftover api T s =
              (Inr (unpack api T (take (unat (tsize T)) (pending s1)),
                    take (unat (hlength h) - unat (tsize T))
                      (drop (unat (tsize T)) (pending s1))),
               s1\<lparr>pending := drop (unat (hlength h)) (pending s1)\<rparr>)"
    if "cls h = tcls T \<and> cmd h = tcmd T \<and> (partial T \<or> hlength h = tsize T) \<and>
          tsize T \<le> hlength h \<and> unat (hlength h) \<le> length (pending s1)"
  proof -
    from that have "read_leftover api T s = readPayload_leftover api T h s1"
      unfolding 2 by auto
    also from that have "\<dots> =
              (Inr (unpack api T (take (unat (tsize T)) (pending s1)),
                    take (unat (hlength h) - unat (tsize T))
                      (drop (unat (tsize T)) (pending s1))),
               s1\<lparr>pending := drop (unat (hlength h)) (pending s1)\<rparr>)"
      by (intro readPayload_leftover_fits) simp_all
    finally show ?thesis .
  qed
  from 1 2 3 show ?thesis
    unfolding readPayload_leftover_eq by blast
qed

text \<open>The validator's positive and negative examples: a header of length 8 for a type
  of size 8 is read; a header of length 7 fails with \<open>LengthMismatch\<close>. A partial type
  of size 2 and a header of length 6: the value is the first 2 bytes, the buffer the
  next 4.\<close>

theorem read_expected_result_witness:
  "read example_api \<lparr>tcls = 5, tcmd = 9, tsize = 8, partial = False\<rparr>
     \<lparr>pending = [0, 8, 5, 9, 1, 2, 3, 4, 5, 6, 7, 8], written = [], room = 0\<rparr> =
     (Inr [1, 2, 3, 4, 5, 6, 7, 8], \<lparr>pending = [], written = [], room = 0\<rparr>) \<and>
   read example_api \<lparr>tcls = 5, tcmd = 9, tsize = 8, partial = False\<rparr>
     \<lparr>pending = [0, 7, 5, 9, 1, 2, 3, 4, 5, 6, 7], written = [], room = 0\<rparr> =
     (Inl LengthMismatch, \<lparr>pending = [1, 2, 3, 4, 5, 6, 7], written = [], room = 0\<rparr>) \<and>
   read_leftover example_api \<lparr>tcls = 2, tcmd = 3, tsize = 2, partial = True\<rparr>
     \<lparr>pending = [0, 6, 2, 3, 1, 2, 3, 4, 5, 6, 9], written = [], room = 0\<rparr> =
     (Inr ([1, 2], [3, 4, 5, 6]), \<lparr>pending = [9], written = [], room = 0\<rparr>)"
proof -
  have h1: "readHeader example_api
      \<lparr>pending = [0, 8, 5, 9, 1, 2, 3, 4, 5, 6, 7, 8], written = [], room = 0\<rparr> =
      (Inr \<lparr>cls = 5, cmd = 9, len = 8\<rparr>,
       \<lparr>pending = [1, 2, 3, 4, 5, 6, 7, 8], written = [], room = 0\<rparr>)"
    by (simp add: readHeader_Inr example_api_def)
  have h2: "readHeader example_api
      \<lparr>pending = [0, 7, 5, 9, 1, 2, 3, 4, 5, 6, 7], written = [], room = 0\<rparr> =
      (Inr \<lparr>cls = 5, cmd = 9, len = 7\<rparr>,
       \<lparr>pending = [1, 2, 3, 4, 5, 6, 7], written = [], room = 0\<rparr>)"
    by (simp add: readHeader_Inr example_api_def)
  have h3: "readHeader example_api
      \<lparr>pending = [0, 6, 2, 3, 1, 2, 3, 4, 5, 6, 9], written = [], room = 0\<rparr> =
      (Inr \<lparr>cls = 2, cmd = 3, len = 6\<rparr>,
       \<lparr>pending = [1, 2, 3, 4, 5, 6, 9], written = [], room = 0\<rparr>)"
    by (simp add: readHeader_Inr example_api_def)
  have r1: "read example_api \<lparr>tcls = 5, tcmd = 9, tsize = 8, partial = False\<rparr>
     \<lparr>pending = [0, 8, 5, 9, 1, 2, 3, 4, 5, 6, 7, 8], written = [], room = 0\<rparr> =
     (Inr [1, 2, 3, 4, 5, 6, 7, 8], \<lparr>pending = [], written = [], room = 0\<rparr>)"
    using read_expected_result [OF h1, of "\<lparr>tcls = 5, tcmd = 9, tsize = 8, partial = False\<rparr>"]
    by (simp add: hlength_def example_api_def)
  have r2: "read example_api \<lparr>tcls = 5, tcmd = 9, tsize = 8, partial = False\<rparr>
     \<lparr>pending = [0, 7, 5, 9, 1, 2, 3, 4, 5, 6, 7], written = [], room = 0\<rparr> =
     (Inl LengthMismatch, \<lparr>pending = [1, 2, 3, 4, 5, 6, 7], written = [], room = 0\<rparr>)"
    using read_expected_result [OF h2, of "\<lparr>tcls = 5, tcmd = 9, tsize = 8, partial = False\<rparr>"]
    by (simp add: hlength_def example_api_def)
  have r3: "read_leftover example_api \<lparr>tcls = 2, tcmd = 3, tsize = 2, partial = True\<rparr>
     \<lparr>pending = [0, 6, 2, 3, 1, 2, 3, 4, 5, 6, 9], written = [], room = 0\<rparr> =
     (Inr ([1, 2], [3, 4, 5, 6]), \<lparr>pending = [9], written = [], room = 0\<rparr>)"
    using read_expected_result [OF h3, of "\<lparr>tcls = 2, tcmd = 3, tsize = 2, partial = True\<rparr>"]
    by (simp add: hlength_def example_api_def word_le_nat_alt)
  from r1 r2 r3 show ?thesis by blast
qed

text \<open>
  The claim as written promises success whenever the validator passes. A header of
  length 1 for a partial type of size 2 passes it, and \<^verbatim>\<open>read<T>(Buffer&)\<close> fails:
  with the one announced byte on the link the read of \<open>sizeof(T)\<close> bytes fails; with
  three bytes on the link that read takes two of them and the read of \<open>1 - 2\<close> bytes,
  \<open>2^64 - 1\<close> in \<^verbatim>\<open>std::size_t\<close>, fails.
\<close>

theorem read_leftover_short_header_counterexample:
  "checkHeader \<lparr>tcls = 2, tcmd = 3, tsize = 2, partial = True\<rparr> \<lparr>cls = 2, cmd = 3, len = 1\<rparr>
     = Inr () \<and>
   read_leftover example_api \<lparr>tcls = 2, tcmd = 3, tsize = 2, partial = True\<rparr>
     \<lparr>pending = [0, 1, 2, 3, 170], written = [], room = 0\<rparr> =
     (Inl TransportError, \<lparr>pending = [170], written = [], room = 0\<rparr>) \<and>
   read_leftover example_api \<lparr>tcls = 2, tcmd = 3, tsize = 2, partial = True\<rparr>
     \<lparr>pending = [0, 1, 2, 3, 170, 187, 204], written = [], room = 0\<rparr> =
     (Inl TransportError, \<lparr>pending = [204], written = [], room = 0\<rparr>)"
  by (simp add: read_leftover_def readHeader_def checkHeader_def readPayload_leftover_def
      socket_read_def sizeof_Header_def hlength_def example_api_def
      unsigned_minus_1_eq_mask mask_eq_exp_minus_1 word_le_nat_alt)

lemma read_mismatch:
  assumes "read api T s = (Inl e, s')" and "e \<noteq> TransportError"
  shows "4 \<le> length (pending s) \<and> s' = s\<lparr>pending := drop 4 (pending s)\<rparr>"
proof -
  obtain r s1 where rh: "readHeader api s = (r, s1)" by (cases "readHeader api s")
  show ?thesis
  proof (cases r)
    case (Inl e')
    with assms rh show ?thesis by (simp add: read_def readHeader_Inl)
  next
    case (Inr h)
    with rh have hs: "4 \<le> length (pending s)" "s1 = s\<lparr>pending := drop 4 (pending s)\<rparr>"
      by (simp_all add: readHeader_Inr)
    show ?thesis
    proof (cases "checkHeader T h")
      case (Inl e'')
      with assms rh \<open>r = Inr h\<close> hs show ?thesis by (simp add: read_def)
    next
      case (Inr u)
      with assms rh \<open>r = Inr h\<close> have "readPayload api T h s1 = (Inl e, s')"
        by (simp add: read_def)
      then have "e = TransportError" by (rule readPayload_error)
      with assms show ?thesis by simp
    qed
  qed
qed

lemma read_leftover_mismatch:
  assumes "read_leftover api T s = (Inl e, s')" and "e \<noteq> TransportError"
  shows "4 \<le> length (pending s) \<and> s' = s\<lparr>pending := drop 4 (pending s)\<rparr>"
proof -
  obtain r s1 where rh: "readHeader api s = (r, s1)" by (cases "readHeader api s")
  show ?thesis
  proof (cases r)
    case (Inl e')
    with assms rh show ?thesis by (simp add: read_leftover_def readHeader_Inl)
  next
    case (Inr h)
    with rh have hs: "4 \<le> length (pending s)" "s1 = s\<lparr>pending := drop 4 (pending s)\<rparr>"
      by (simp_all add: readHeader_Inr)
    show ?thesis
    proof (cases "checkHeader T h")
      case (Inl e'')
      with assms rh \<open>r = Inr h\<close> hs show ?thesis by (simp add: read_leftover_def)
    next
      case (Inr u)
      with assms rh \<open>r = Inr h\<close> have "readPayload_leftover api T h s1 = (Inl e, s')"
        by (simp add: read_leftover_def)
      then have "e = TransportError" by (rule readPayload_leftover_error)
      with assms show ?thesis by simp
    qed
  qed
qed

text \<open>
  Claim C9. Whenever a typed read fails with a header mismatch (any error but the
  transport's), exactly the 4 header bytes have been consumed from the link and nothing
  else has changed: no payload byte has been read.
\<close>

theorem read_mismatch_consumes_header:
  "(read api T s = (Inl e, s') \<and> e \<noteq> TransportError \<longrightarrow>
      4 \<le> length (pending s) \<and> s' = s\<lparr>pending := drop 4 (pending s)\<rparr>) \<and>
   (read_leftover api T s = (Inl e, s') \<and> e \<noteq> TransportError \<longrightarrow>
      4 \<le> length (pending s) \<and> s' = s\<lparr>pending := drop 4 (pending s)\<rparr>)"
  using read_mismatch [of api T s e s'] read_leftover_mismatch [of api T s e s'] by blast

theorem read_mismatch_consumes_header_witness:
  "read example_api \<lparr>tcls = 5, tcmd = 9, tsize = 8, partial = False\<rparr>
     \<lparr>pending = [0, 8, 6, 9, 1, 2, 3, 4, 5, 6, 7, 8], written = [], room = 0\<rparr> =
     (Inl ClassMismatch, \<lparr>pending = [1, 2, 3, 4, 5, 6, 7, 8], written = [], room = 0\<rparr>) \<and>
   (4::nat) \<le> length [0::byte, 8, 6, 9, 1, 2, 3, 4, 5, 6, 7, 8] \<and>
   \<lparr>pending = [1::byte, 2, 3, 4, 5, 6, 7, 8], written = [], room = 0\<rparr> =
     \<lparr>pending = [0, 8, 6, 9, 1, 2, 3, 4, 5, 6, 7, 8], written = [], room = 0\<rparr>
       \<lparr>pending := drop 4 [0, 8, 6, 9, 1, 2, 3, 4, 5, 6, 7, 8]\<rparr>"
proof -
  have r: "read example_api \<lparr>tcls = 5, tcmd = 9, tsize = 8, partial = False\<rparr>
     \<lparr>pending = [0, 8, 6, 9, 1, 2, 3, 4, 5, 6, 7, 8], written = [], room = 0\<rparr> =
     (Inl ClassMismatch, \<lparr>pending = [1, 2, 3, 4, 5, 6, 7, 8], written = [], room = 0\<rparr>)"
    by (simp add: read_def readHeader_def socket_read_def sizeof_Header_def example_api_def
        checkHeader_def)
  show ?thesis
    using r read_mismatch_consumes_header [of example_api
        "\<lparr>tcls = 5, tcmd = 9, tsize = 8, partial = False\<rparr>"
        "\<lparr>pending = [0, 8, 6, 9, 1, 2, 3, 4, 5, 6, 7, 8], written = [], room = 0\<rparr>"
        ClassMismatch
        "\<lparr>pending = [1, 2, 3, 4, 5, 6, 7, 8], written = [], room = 0\<rparr>"]
    by simp
qed

subsection \<open>Dispatch\<close>

text \<open>
  Claim C3. When the header that was read passes the test of no function of the list,
  the dispatching read discards the message: it returns normally, with no error, and
  the caller's state is the one before the call, whatever the functions would do.
\<close>

theorem read_dispatch_unmatched:
  assumes "readHeader api s = (Inr h, s1)" and "\<forall>f \<in> set fs. \<not> handlerTest h f"
  shows "fst (read_dispatch api fs (s, u)) = Inr () \<and> snd (snd (read_dispatch api fs (s, u))) = u"
  using assms by (simp add: read_dispatch_def dispatch_unmatched)

text \<open>Functions for (1, 1) and (2, 2), a header of class 9, command 9 and length 0:
  no function is called and the call returns.\<close>

theorem read_dispatch_unmatched_witness:
  "fst (read_dispatch example_api
      [Fn \<lparr>tcls = 1, tcmd = 1, tsize = 0, partial = False\<rparr> (\<lambda>v u. Suc u),
       FnPartial \<lparr>tcls = 2, tcmd = 2, tsize = 0, partial = True\<rparr> (\<lambda>v l u. Suc u)]
      (\<lparr>pending = [0, 0, 9, 9], written = [], room = 0\<rparr>, 0 :: nat)) = Inr () \<and>
   snd (snd (read_dispatch example_api
      [Fn \<lparr>tcls = 1, tcmd = 1, tsize = 0, partial = False\<rparr> (\<lambda>v u. Suc u),
       FnPartial \<lparr>tcls = 2, tcmd = 2, tsize = 0, partial = True\<rparr> (\<lambda>v l u. Suc u)]
      (\<lparr>pending = [0, 0, 9, 9], written = [], room = 0\<rparr>, 0 :: nat))) = 0"
proof -
  have h: "readHeader example_api \<lparr>pending = [0, 0, 9, 9], written = [], room = 0\<rparr> =
      (Inr \<lparr>cls = 9, cmd = 9, len = 0\<rparr>, \<lparr>pending = [], written = [], room = 0\<rparr>)"
    by (simp add: readHeader_Inr example_api_def)
  have n: "\<forall>f \<in> set [Fn \<lparr>tcls = 1, tcmd = 1, tsize = 0, partial = False\<rparr> (\<lambda>(v :: Buffer) (u :: nat). Suc u),
       FnPartial \<lparr>tcls = 2, tcmd = 2, tsize = 0, partial = True\<rparr> (\<lambda>v l u. Suc u)].
       \<not> handlerTest \<lparr>cls = 9, cmd = 9, len = 0\<rparr> f"
    by simp
  show ?thesis
    by (rule read_dispatch_unmatched [OF h n])
qed

text \<open>
  Claim C8. When no function matches, the dispatching read consumes exactly the 4 header
  bytes: the link is as before but for these, so the payload bytes the header
  announces are still on the stream for the next read.
\<close>

theorem read_dispatch_unmatched_stream:
  assumes "4 \<le> length (pending s)"
    and "\<forall>f \<in> set fs. \<not> handlerTest (unpack_Header api (take 4 (pending s))) f"
  shows "fst (snd (read_dispatch api fs (s, u))) = s\<lparr>pending := drop 4 (pending s)\<rparr>"
proof -
  have "readHeader api s =
      (Inr (unpack_Header api (take 4 (pending s))), s\<lparr>pending := drop 4 (pending s)\<rparr>)"
    using assms(1) by (simp add: readHeader_Inr)
  with assms(2) show ?thesis by (simp add: read_dispatch_def dispatch_unmatched)
qed

text \<open>Two payload bytes follow the unmatched header; both are still pending.\<close>

theorem read_dispatch_unmatched_stream_witness:
  "fst (snd (read_dispatch example_api
      [Fn \<lparr>tcls = 1, tcmd = 1, tsize = 2, partial = False\<rparr> (\<lambda>v u. Suc u),
       FnPartial \<lparr>tcls = 2, tcmd = 2, tsize = 1, partial = True\<rparr> (\<lambda>v l u. Suc u)]
      (\<lparr>pending = [0, 2, 9, 9, 170, 187], written = [], room = 0\<rparr>, 0 :: nat))) =
     \<lparr>pending = [170, 187], written = [], room = 0\<rparr>"
  using read_dispatch_unmatched_stream [of
      "\<lparr>pending = [0, 2, 9, 9, 170, 187], written = [], room = 0\<rparr>"
      "[Fn \<lparr>tcls = 1, tcmd = 1, tsize = 2, partial = False\<rparr> (\<lambda>v u. Suc u),
        FnPartial \<lparr>tcls = 2, tcmd = 2, tsize = 1, partial = True\<rparr> (\<lambda>v l u. Suc u)]"
      example_api "0 :: nat"]
  by (simp add: example_api_def)

text \<open>
  Claim C2, as amended. Dispatch tests the functions in the order given. At the first
  function whose test passes it reads the payload as the kind of that function says and
  stops: no later function is tested and nothing but that payload is read. A function
  that is not partial is called with the value unpacked from the \<open>header.length()\<close>
  bytes the link delivers. A partial one is called with the value unpacked from the
  first \<open>sizeof(T)\<close> bytes and the \<open>header.length() - sizeof(T)\<close> bytes after them, when
  the header's length is at least \<open>sizeof(T)\<close> and the link delivers the bytes the
  header announces. Only that function is called, and when the payload read fails none
  is: the transport's error is returned. The first conjunct gives the result in closed
  form, the size of the second read of a partial payload being the \<^verbatim>\<open>std::size_t\<close>
  difference that the source computes.
\<close>

theorem dispatch_first_match:
  assumes "\<forall>g \<in> set pre. \<not> handlerTest h g" and "handlerTest h f"
  shows "dispatch api h (pre @ f # post) (s, u) =
           (case f of
              Fn T function \<Rightarrow>
                (if unat (hlength h) \<le> length (pending s)
                 then (Inr (), s\<lparr>pending := drop (unat (hlength h)) (pending s)\<rparr>,
                       function (unpack api T (take (unat (hlength h)) (pending s))) u)
                 else (Inl TransportError, s, u))
            | FnPartial T function \<Rightarrow>
                (if unat (tsize T) \<le> length (pending s)
                 then (if unat (hlength h - tsize T) \<le> length (pending s) - unat (tsize T)
                       then (Inr (),
                             s\<lparr>pending :=
                                 drop (unat (hlength h - tsize T))
                                   (drop (unat (tsize T)) (pending s))\<rparr>,
                             function (unpack api T (take (unat (tsize T)) (pending s)))
                               (take (unat (hlength h - tsize T))
                                  (drop (unat (tsize T)) (pending s))) u)
                       else (Inl TransportError,
                             s\<lparr>pending := drop (unat (tsize T)) (pending s)\<rparr>, u))
                 else (Inl TransportError, s, u))) \<and>
         (f = FnPartial P callee \<and> tsize P \<le> hlength h \<and>
          unat (hlength h) \<le> length (pending s) \<longrightarrow>
            dispatch api h (pre @ f # post) (s, u) =
              (Inr (), s\<lparr>pending := drop (unat (hlength h)) (pending s)\<rparr>,
               callee (unpack api P (take (unat (tsize P)) (pending s)))
                 (take (unat (hlength h) - unat (tsize P)) (drop (unat (tsize P)) (pending s)))
                 u))"
proof -
  have skip: "dispatch api h (pre @ f # post) (s, u) = dispatch api h (f # post) (s, u)"
    using assms(1) by (rule dispatch_skip)
  have 1: "dispatch api h (pre @ f # post) (s, u) =
           (case f of
              Fn T function \<Rightarrow>
                (if unat (hlength h) \<le> length (pending s)
                 then (Inr (), s\<lparr>pending := drop (unat (hlength h)) (pending s)\<rparr>,
                       function (unpack api T (take (unat (hlength h)) (pending s))) u)
                 else (Inl TransportError, s, u))
            | FnPartial T function \<Rightarrow>
                (if unat (tsize T) \<le> length (pending s)
                 then (if unat (hlength h - tsize T) \<le> length (pending s) - unat (tsize T)
                       then (Inr (),
                             s\<lparr>pending :=
                                 drop (unat (hlength h - tsize T))
                                   (drop (unat (tsize T)) (pending s))\<rparr>,
                             function (unpack api T (take (unat (tsize T)) (pending s)))
                               (take (unat (hlength h - tsize T))
                                  (drop (unat (tsize T)) (pending s))) u)
                       else (Inl TransportError,
                             s\<lparr>pending := drop (unat (tsize T)) (pending s)\<rparr>, u))
                 else (Inl TransportError, s, u)))"
    unfolding skip using assms(2)
    by (cases f) (simp_all add: readPayload_eq readPayload_leftover_eq)
  have 2: "dispatch api h (pre @ f # post) (s, u) =
              (Inr (), s\<lparr>pending := drop (unat (hlength h)) (pending s)\<rparr>,
               callee (unpack api P (take (unat (tsize P)) (pending s)))
                 (take (unat (hlength h) - unat (tsize P)) (drop (unat (tsize P)) (pending s)))
                 u)"
    if "f = FnPartial P callee \<and> tsize P \<le> hlength h \<and>
          unat (hlength h) \<le> length (pending s)"
  proof -
    from that have fits: "readPayload_leftover api P h s =
           (Inr (unpack api P (take (unat (tsize P)) (pending s)),
                 take (unat (hlength h) - unat (tsize P)) (drop (unat (tsize P)) (pending s))),
            s\<lparr>pending := drop (unat (hlength h)) (pending s)\<rparr>)"
      by (intro readPayload_leftover_fits) simp_all
    from that assms(2) show ?thesis
      unfolding skip by (simp add: fits)
  qed
  from 1 2 show ?thesis by blast
qed

text \<open>
  First match wins: \<open>A\<close> (not partial, size 4) and \<open>B\<close> (partial, size 2) have the
  class and command of the header. With a header of length 4, \<open>C\<close> is tested first and
  does not match, \<open>A\<close> is called with the four payload bytes and \<open>B\<close> is not called.
  With a header of length 6, \<open>A\<close> does not match, \<open>B\<close> is called with the first two
  bytes and the four after them, and \<open>D\<close>, which would match too, is not called. The
  bytes after the payload stay on the link.
\<close>

theorem dispatch_first_match_witness:
  "dispatch example_api \<lparr>cls = 2, cmd = 3, len = 4\<rparr>
     [Fn \<lparr>tcls = 1, tcmd = 1, tsize = 4, partial = False\<rparr> (\<lambda>v u. u @ [(''C'', v, [])]),
      Fn \<lparr>tcls = 2, tcmd = 3, tsize = 4, partial = False\<rparr> (\<lambda>v u. u @ [(''A'', v, [])]),
      FnPartial \<lparr>tcls = 2, tcmd = 3, tsize = 2, partial = True\<rparr> (\<lambda>v l u. u @ [(''B'', v, l)])]
     (\<lparr>pending = [1, 2, 3, 4, 0, 0, 7, 7], written = [], room = 0\<rparr>, []) =
   (Inr (), \<lparr>pending = [0, 0, 7, 7], written = [], room = 0\<rparr>, [(''A'', [1, 2, 3, 4], [])]) \<and>
   dispatch example_api \<lparr>cls = 2, cmd = 3, len = 6\<rparr>
     [Fn \<lparr>tcls = 2, tcmd = 3, tsize = 4, partial = False\<rparr> (\<lambda>v u. u @ [(''A'', v, [])]),
      FnPartial \<lparr>tcls = 2, tcmd = 3, tsize = 2, partial = True\<rparr> (\<lambda>v l u. u @ [(''B'', v, l)]),
      FnPartial \<lparr>tcls = 2, tcmd = 3, tsize = 1, partial = True\<rparr> (\<lambda>v l u. u @ [(''D'', v, l)])]
     (\<lparr>pending = [1, 2, 3, 4, 5, 6, 0, 0, 7, 7], written = [], room = 0\<rparr>, []) =
   (Inr (), \<lparr>pending = [0, 0, 7, 7], written = [], room = 0\<rparr>,
    [(''B'', [1, 2], [3, 4, 5, 6])])"
proof -
  have a: "dispatch example_api \<lparr>cls = 2, cmd = 3, len = 4\<rparr>
     [Fn \<lparr>tcls = 1, tcmd = 1, tsize = 4, partial = False\<rparr> (\<lambda>v u. u @ [(''C'', v, [])]),
      Fn \<lparr>tcls = 2, tcmd = 3, tsize = 4, partial = False\<rparr> (\<lambda>v u. u @ [(''A'', v, [])]),
      FnPartial \<lparr>tcls = 2, tcmd = 3, tsize = 2, partial = True\<rparr> (\<lambda>v l u. u @ [(''B'', v, l)])]
     (\<lparr>pending = [1, 2, 3, 4, 0, 0, 7, 7], written = [], room = 0\<rparr>, []) =
   (Inr (), \<lparr>pending = [0, 0, 7, 7], written = [], room = 0\<rparr>, [(''A'', [1, 2, 3, 4], [])])"
    using dispatch_first_match [of
      "[Fn \<lparr>tcls = 1, tcmd = 1, tsize = 4, partial = False\<rparr> (\<lambda>v u. u @ [(''C'', v, [])])]"
      "\<lparr>cls = 2, cmd = 3, len = 4\<rparr>"
      "Fn \<lparr>tcls = 2, tcmd = 3, tsize = 4, partial = False\<rparr> (\<lambda>v u. u @ [(''A'', v, [])])"
      example_api
      "[FnPartial \<lparr>tcls = 2, tcmd = 3, tsize = 2, partial = True\<rparr> (\<lambda>v l u. u @ [(''B'', v, l)])]"
      "\<lparr>pending = [1, 2, 3, 4, 0, 0, 7, 7], written = [], room = 0\<rparr>" "[]"]
    by (simp add: hlength_def example_api_def)
  have b: "dispatch example_api \<lparr>cls = 2, cmd = 3, len = 6\<rparr>
     [Fn \<lparr>tcls = 2, tcmd = 3, tsize = 4, partial = False\<rparr> (\<lambda>v u. u @ [(''A'', v, [])]),
      FnPartial \<lparr>tcls = 2, tcmd = 3, tsize = 2, partial = True\<rparr> (\<lambda>v l u. u @ [(''B'', v, l)]),
      FnPartial \<lparr>tcls = 2, tcmd = 3, tsize = 1, partial = True\<rparr> (\<lambda>v l u. u @ [(''D'', v, l)])]
     (\<lparr>pending = [1, 2, 3, 4, 5, 6, 0, 0, 7, 7], written = [], room = 0\<rparr>, []) =
   (Inr (), \<lparr>pending = [0, 0, 7, 7], written = [], room = 0\<rparr>,
    [(''B'', [1, 2], [3, 4, 5, 6])])"
    using dispatch_first_match [of
      "[Fn \<lparr>tcls = 2, tcmd = 3, tsize = 4, partial = False\<rparr> (\<lambda>v u. u @ [(''A'', v, [])])]"
      "\<lparr>cls = 2, cmd = 3, len = 6\<rparr>"
      "FnPartial \<lparr>tcls = 2, tcmd = 3, tsize = 2, partial = True\<rparr> (\<lambda>v l u. u @ [(''B'', v, l)])"
      example_api
      "[FnPartial \<lparr>tcls = 2, tcmd = 3, tsize = 1, partial = True\<rparr> (\<lambda>v l u. u @ [(''D'', v, l)])]"
      "\<lparr>pending = [1, 2, 3, 4, 5, 6, 0, 0, 7, 7], written = [], room = 0\<rparr>" "[]"
      "\<lparr>tcls = 2, tcmd = 3, tsize = 2, partial = True\<rparr>" "\<lambda>v l u. u @ [(''B'', v, l)]"]
    by (simp add: hlength_def example_api_def word_le_nat_alt)
  from a b show ?thesis by blast
qed

text \<open>
  The claim as written promises the call whenever a test passes. With a header of
  length 1, \<open>C\<close> does not match and the partial \<open>B\<close> of size 2 does; dispatch takes
  two bytes from the link, one more than the header announces, fails on the read of
  \<open>1 - 2\<close> bytes and calls no function.
\<close>

theorem dispatch_short_partial_counterexample:
  "\<not> handlerTest \<lparr>cls = 2, cmd = 3, len = 1\<rparr>
       (Fn \<lparr>tcls = 1, tcmd = 1, tsize = 4, partial = False\<rparr>
          (\<lambda>(v :: Buffer) (u :: (string \<times> Buffer \<times> Buffer) list). u @ [(''C'', v, [])])) \<and>
   handlerTest \<lparr>cls = 2, cmd = 3, len = 1\<rparr>
       (FnPartial \<lparr>tcls = 2, tcmd = 3, tsize = 2, partial = True\<rparr>
          (\<lambda>(v :: Buffer) l (u :: (string \<times> Buffer \<times> Buffer) list). u @ [(''B'', v, l)])) \<and>
   dispatch example_api \<lparr>cls = 2, cmd = 3, len = 1\<rparr>
     [Fn \<lparr>tcls = 1, tcmd = 1, tsize = 4, partial = False\<rparr> (\<lambda>v u. u @ [(''C'', v, [])]),
      FnPartial \<lparr>tcls = 2, tcmd = 3, tsize = 2, partial = True\<rparr> (\<lambda>v l u. u @ [(''B'', v, l)])]
     (\<lparr>pending = [1, 2, 3], written = [], room = 0\<rparr>, []) =
   (Inl TransportError, \<lparr>pending = [3], written = [], room = 0\<rparr>, [])"
  by (simp add: hlength_def readPayload_leftover_def socket_read_def example_api_def
      unsigned_minus_1_eq_mask mask_eq_exp_minus_1 word_le_nat_alt)

text \<open>
  Claim C1, as amended. The test that dispatch makes for a function of a partial type
  \<open>T\<close> passes if and only if the class and the command of the header are those of
  \<open>T\<close>: the length of the header is not tested. The claim as written adds
  \<open>header.length() >= sizeof(T)\<close> to the test; \<open>checkHeader\<close> makes no length check
  for a partial type either.
\<close>

theorem dispatch_partial_test:
  "handlerTest h (FnPartial T function) = (cls h = tcls T \<and> cmd h = tcmd T) \<and>
   dispatch api h (FnPartial T function # functions) (s, u) =
     (if cls h = tcls T \<and> cmd h = tcmd T
      then (case readPayload_leftover api T h s of
              (Inl e, s1) \<Rightarrow> (Inl e, s1, u)
            | (Inr (payload, leftover), s1) \<Rightarrow> (Inr (), s1, function payload leftover u))
      else dispatch api h functions (s, u))"
  by simp

text \<open>
  A header of length 1 for a partial type of size 2: the test passes although the
  length is below the size. Dispatch then reads the two bytes of the fixed part and asks
  the link for \<open>1 - 2\<close> bytes, which is \<open>2^64 - 1\<close> in \<^verbatim>\<open>std::size_t\<close>; the link
  fails, and the function is not called.
\<close>

theorem dispatch_partial_length_counterexample:
  "\<not> (handlerTest \<lparr>cls = 2, cmd = 3, len = 1\<rparr>
        (FnPartial \<lparr>tcls = 2, tcmd = 3, tsize = 2, partial = True\<rparr>
           (\<lambda>(v :: Buffer) (l :: Buffer) (u :: nat). Suc u)) =
      (cls \<lparr>cls = 2, cmd = 3, len = 1\<rparr> = tcls \<lparr>tcls = 2, tcmd = 3, tsize = 2, partial = True\<rparr> \<and>
       cmd \<lparr>cls = 2, cmd = 3, len = 1\<rparr> = tcmd \<lparr>tcls = 2, tcmd = 3, tsize = 2, partial = True\<rparr> \<and>
       tsize \<lparr>tcls = 2, tcmd = 3, tsize = 2, partial = True\<rparr> \<le> hlength \<lparr>cls = 2, cmd = 3, len = 1\<rparr>)) \<and>
   dispatch example_api \<lparr>cls = 2, cmd = 3, len = 1\<rparr>
     [FnPartial \<lparr>tcls = 2, tcmd = 3, tsize = 2, partial = True\<rparr> (\<lambda>v l u. Suc u)]
     (\<lparr>pending = [1, 2, 3], written = [], room = 0\<rparr>, 0 :: nat) =
   (Inl TransportError, \<lparr>pending = [3], written = [], room = 0\<rparr>, 0)"
  by (simp add: hlength_def readPayload_leftover_def socket_read_def example_api_def
      unsigned_minus_1_eq_mask mask_eq_exp_minus_1 word_le_nat_alt)

subsection \<open>The trailing buffer of a partial message\<close>

lemma unat_sub_wrap:
  fixes a b :: size_t
  assumes "\<not> b \<le> a"
  shows "unat (a - b) = unat a + 2 ^ 64 - unat b"
  using assms by (simp add: unat_sub_if' word_le_nat_alt)

lemma readPayload_leftover_Inr:
  "readPayload_leftover api T h s = (Inr (payload, leftover), s') \<longleftrightarrow>
     unat (tsize T) \<le> length (pending s) \<and>
     unat (hlength h - tsize T) \<le> length (pending s) - unat (tsize T) \<and>
     payload = unpack api T (take (unat (tsize T)) (pending s)) \<and>
     leftover = take (unat (hlength h - tsize T)) (drop (unat (tsize T)) (pending s)) \<and>
     s' = s\<lparr>pending := drop (unat (hlength h - tsize T)) (drop (unat (tsize T)) (pending s))\<rparr>"
  by (auto simp: readPayload_leftover_def socket_read_def)

text \<open>
  Claim C5. For every partial type \<open>T\<close> and every message decoded by
  \<open>readPayload_leftover\<close>, the trailing buffer has exactly \<open>header.length() - sizeof(T)\<close>
  bytes, and this number is not negative: the length of the header is at least
  \<open>sizeof(T)\<close>. The decoded value is unpacked from the first \<open>sizeof(T)\<close> bytes and the
  trailing buffer is the bytes after them. The link holds fewer than \<open>2^64\<close> bytes, as
  every buffer whose size is a \<^verbatim>\<open>std::size_t\<close> does: when the header's length is below
  \<open>sizeof(T)\<close> the difference wraps, the read asks for at least \<open>2^64 - sizeof(T)\<close>
  bytes, and no such link delivers them.
\<close>

theorem readPayload_leftover_length:
  assumes "readPayload_leftover api T h s = (Inr (payload, leftover), s')"
    and "length (pending s) < 2 ^ 64"
  shows "tsize T \<le> hlength h \<and>
         int (length leftover) = int (unat (hlength h)) - int (unat (tsize T)) \<and>
         payload = unpack api T (take (unat (tsize T)) (pending s)) \<and>
         leftover = take (unat (hlength h) - unat (tsize T)) (drop (unat (tsize T)) (pending s))"
proof -
  from assms(1) have fits: "unat (tsize T) \<le> length (pending s)"
    and rest: "unat (hlength h - tsize T) \<le> length (pending s) - unat (tsize T)"
    and p: "payload = unpack api T (take (unat (tsize T)) (pending s))"
    and l: "leftover = take (unat (hlength h - tsize T)) (drop (unat (tsize T)) (pending s))"
    by (simp_all add: readPayload_leftover_Inr)
  have le: "tsize T \<le> hlength h"
  proof (rule ccontr)
    assume "\<not> tsize T \<le> hlength h"
    then have "unat (hlength h - tsize T) = unat (hlength h) + 2 ^ 64 - unat (tsize T)"
      by (rule unat_sub_wrap)
    with rest fits have "2 ^ 64 \<le> length (pending s)"
      by linarith
    with assms(2) show False by simp
  qed
  then have d: "unat (hlength h - tsize T) = unat (hlength h) - unat (tsize T)"
    by (rule unat_sub)
  from le have "unat (tsize T) \<le> unat (hlength h)"
    by (simp add: word_le_nat_alt)
  with l d rest have "int (length leftover) = int (unat (hlength h)) - int (unat (tsize T))"
    by simp
  with le p l d show ?thesis by simp
qed

text \<open>A partial type of size 2 and a payload of 6 bytes: the value is the first 2
  bytes, the trailing buffer the last 4.\<close>

theorem readPayload_leftover_length_witness:
  "readPayload_leftover example_api \<lparr>tcls = 2, tcmd = 3, tsize = 2, partial = True\<rparr>
     \<lparr>cls = 2, cmd = 3, len = 6\<rparr> \<lparr>pending = [1, 2, 3, 4, 5, 6, 9], written = [], room = 0\<rparr> =
     (Inr ([1, 2], [3, 4, 5, 6]), \<lparr>pending = [9], written = [], room = 0\<rparr>) \<and>
   tsize \<lparr>tcls = 2, tcmd = 3, tsize = 2, partial = True\<rparr> \<le> hlength \<lparr>cls = 2, cmd = 3, len = 6\<rparr> \<and>
   int (length [3 :: byte, 4, 5, 6]) =
     int (unat (hlength \<lparr>cls = 2, cmd = 3, len = 6\<rparr>))
     - int (unat (tsize \<lparr>tcls = 2, tcmd = 3, tsize = 2, partial = True\<rparr>))"
proof -
  have r: "readPayload_leftover example_api \<lparr>tcls = 2, tcmd = 3, tsize = 2, partial = True\<rparr>
     \<lparr>cls = 2, cmd = 3, len = 6\<rparr> \<lparr>pending = [1, 2, 3, 4, 5, 6, 9], written = [], room = 0\<rparr> =
     (Inr ([1, 2], [3, 4, 5, 6]), \<lparr>pending = [9], written = [], room = 0\<rparr>)"
    by (simp add: readPayload_leftover_def socket_read_def hlength_def example_api_def)
  have b: "length (pending \<lparr>pending = [1 :: byte, 2, 3, 4, 5, 6, 9], written = [], room = 0\<rparr>) < 2 ^ 64"
    by simp
  from readPayload_leftover_length [OF r b] r show ?thesis
    by blast
qed

subsection \<open>Writing\<close>

lemma of_nat_take_bit_16: "(of_nat (take_bit 64 m) :: 16 word) = of_nat m"
  by (rule bit_word_eqI) (simp add: bit_simps)

lemma unat_add_of_nat: "unat (a + of_nat n :: size_t) = take_bit 64 (unat a + n)"
  by (simp add: unat_word_ariths unat_of_nat take_bit_eq_mod mod_simps)

lemma ucast_len_sum:
  "(ucast (a + of_nat n :: size_t) :: 16 word) = of_nat (unat a + n)"
proof -
  have "(ucast (a + of_nat n :: size_t) :: 16 word) = of_nat (unat (a + of_nat n))"
    by simp
  also have "\<dots> = of_nat (take_bit 64 (unat a + n))"
    by (simp only: unat_add_of_nat)
  also have "\<dots> = of_nat (unat a + n)"
    by (rule of_nat_take_bit_16)
  finally show ?thesis .
qed

lemma getHeader_leftover:
  "getHeader T (of_nat n) = \<lparr>cls = tcls T, cmd = tcmd T, len = of_nat (unat (tsize T) + n)\<rparr>"
  by (simp add: getHeader_def ucast_len_sum)

lemma getHeader_0: "getHeader T 0 = \<lparr>cls = tcls T, cmd = tcmd T, len = ucast (tsize T)\<rparr>"
  by (simp add: getHeader_def)


lemma write_leftover_ok:
  assumes "length (pack_Header api (getHeader T (of_nat (length leftover))))
             + length (pack api payload) + length leftover \<le> room s"
  shows "write_leftover api T payload leftover s =
           (Inr (),
            s\<lparr>written := written s @ pack_Header api (getHeader T (of_nat (length leftover)))
                   @ pack api payload @ leftover,
              room := room s - (length (pack_Header api (getHeader T (of_nat (length leftover))))
                   + length (pack api payload) + length leftover)\<rparr>)"
  using assms by (auto simp: write_leftover_def socket_write_def)

lemma write_payload_ok:
  assumes "length (pack_Header api (getHeader T 0)) + length (pack api payload) \<le> room s"
  shows "write_payload api T payload s =
           (Inr (),
            s\<lparr>written := written s @ pack_Header api (getHeader T 0) @ pack api payload,
              room := room s - (length (pack_Header api (getHeader T 0))
                   + length (pack api payload))\<rparr>)"
  using assms by (auto simp: write_payload_def socket_write_def)

lemma write_leftover_written:
  "written (snd (write_leftover api T payload leftover s)) \<in>
     {written s,
      written s @ pack_Header api (getHeader T (of_nat (length leftover))),
      written s @ pack_Header api (getHeader T (of_nat (length leftover))) @ pack api payload,
      written s @ pack_Header api (getHeader T (of_nat (length leftover))) @ pack api payload
        @ leftover}"
  by (simp add: write_leftover_def socket_write_def)

text \<open>
  Claim C6. For every message type \<open>T\<close>, payload and trailing buffer, the write with a
  trailing buffer sends the header of \<open>T\<close> whose length is \<open>sizeof(T)\<close> plus the size of
  the trailing buffer (in the 16 bits of the header's length), then the packed payload,
  then the trailing bytes; the write without one sends the header with length
  \<open>sizeof(T)\<close>, then the packed payload. Nothing else is written: when the link accepts
  the bytes the output grows by exactly these, and whenever it fails the output has
  grown by none, one or two of the three parts, in that order.
\<close>

theorem write_bytes:
  "(length (pack_Header api (getHeader T (of_nat (length leftover)))) + length (pack api payload)
        + length leftover \<le> room s \<longrightarrow>
      fst (write_leftover api T payload leftover s) = Inr () \<and>
      written (snd (write_leftover api T payload leftover s)) =
        written s
        @ pack_Header api
            \<lparr>cls = tcls T, cmd = tcmd T, len = of_nat (unat (tsize T) + length leftover)\<rparr>
        @ pack api payload @ leftover) \<and>
   (length (pack_Header api (getHeader T 0)) + length (pack api payload) \<le> room s \<longrightarrow>
      fst (write_payload api T payload s) = Inr () \<and>
      written (snd (write_payload api T payload s)) =
        written s
        @ pack_Header api \<lparr>cls = tcls T, cmd = tcmd T, len = ucast (tsize T)\<rparr>
        @ pack api payload) \<and>
   written (snd (write_leftover api T payload leftover s)) \<in>
     {written s,
      written s @ pack_Header api (getHeader T (of_nat (length leftover))),
      written s @ pack_Header api (getHeader T (of_nat (length leftover))) @ pack api payload,
      written s @ pack_Header api (getHeader T (of_nat (length leftover))) @ pack api payload
        @ leftover}"
proof -
  have 1: "fst (write_leftover api T payload leftover s) = Inr () \<and>
      written (snd (write_leftover api T payload leftover s)) =
        written s
        @ pack_Header api
            \<lparr>cls = tcls T, cmd = tcmd T, len = of_nat (unat (tsize T) + length leftover)\<rparr>
        @ pack api payload @ leftover"
    if "length (pack_Header api (getHeader T (of_nat (length leftover))))
          + length (pack api payload) + length leftover \<le> room s"
    unfolding write_leftover_ok [OF that] getHeader_leftover by simp
  have 2: "fst (write_payload api T payload s) = Inr () \<and>
      written (snd (write_payload api T payload s)) =
        written s
        @ pack_Header api \<lparr>cls = tcls T, cmd = tcmd T, len = ucast (tsize T)\<rparr>
        @ pack api payload"
    if "length (pack_Header api (getHeader T 0)) + length (pack api payload) \<le> room s"
    unfolding write_payload_ok [OF that] getHeader_0 by simp
  have 3: "written (snd (write_leftover api T payload leftover s)) \<in>
     {written s,
      written s @ pack_Header api (getHeader T (of_nat (length leftover))),
      written s @ pack_Header api (getHeader T (of_nat (length leftover))) @ pack api payload,
      written s @ pack_Header api (getHeader T (of_nat (length leftover))) @ pack api payload
        @ leftover}"
    by (rule write_leftover_written)
  from 1 2 3 show ?thesis by blast
qed

text \<open>End to end: a request of class 4, command 5 and three payload bytes writes the
  header with length 3 and the three bytes; with two trailing bytes the header has
  length 5 and the two bytes follow the payload.\<close>

theorem write_bytes_witness:
  "fst (write_payload example_api \<lparr>tcls = 4, tcmd = 5, tsize = 3, partial = False\<rparr> [10, 20, 30]
     \<lparr>pending = [], written = [], room = 100\<rparr>) = Inr () \<and>
   written (snd (write_payload example_api \<lparr>tcls = 4, tcmd = 5, tsize = 3, partial = False\<rparr>
     [10, 20, 30] \<lparr>pending = [], written = [], room = 100\<rparr>)) = [0, 3, 4, 5, 10, 20, 30] \<and>
   fst (write_leftover example_api \<lparr>tcls = 4, tcmd = 5, tsize = 3, partial = True\<rparr> [10, 20, 30]
     [7, 8] \<lparr>pending = [], written = [], room = 100\<rparr>) = Inr () \<and>
   written (snd (write_leftover example_api \<lparr>tcls = 4, tcmd = 5, tsize = 3, partial = True\<rparr>
     [10, 20, 30] [7, 8] \<lparr>pending = [], written = [], room = 100\<rparr>)) =
     [0, 5, 4, 5, 10, 20, 30, 7, 8]"
  using
    write_bytes [of example_api "\<lparr>tcls = 4, tcmd = 5, tsize = 3, partial = False\<rparr>" "[]"
      "[10, 20, 30]" "\<lparr>pending = [], written = [], room = 100\<rparr>"]
    write_bytes [of example_api "\<lparr>tcls = 4, tcmd = 5, tsize = 3, partial = True\<rparr>" "[7, 8]"
      "[10, 20, 30]" "\<lparr>pending = [], written = [], room = 100\<rparr>"]
  by (simp add: example_api_def example_pack_Header_def getHeader_def)

end
